theory Spec2Isabelle
  imports Main "HOL-Library.Sublist"
begin

section \<open>Python values, errors and string operations\<close>

text \<open>
  The converter of \<^verbatim>\<open>sphinx_asdf/md2rst.py\<close> works on Python strings. A string is
  modelled as a list of characters, one list element per Python character, so that
  \<open>length\<close> is Python's \<open>len\<close>. Keyword arguments are a dictionary from names to
  Python values; the values that the renderer inspects are modelled by \<open>pyval\<close>.
  A raised exception is the \<open>Inl\<close> branch of a sum type.
\<close>

datatype pyval = PyNone | PyBool bool | PyInt int | PyStr string

datatype error = NotImplementedError "string list" | IndexError | TypeError | KeyError

type_synonym kwargs = "string \<rightharpoonup> pyval"

text \<open>Truth value of a Python object, as tested by \<^verbatim>\<open>if x:\<close>.\<close>

fun truthy :: "pyval \<Rightarrow> bool" where
  "truthy PyNone = False"
| "truthy (PyBool b) = b"
| "truthy (PyInt i) = (i \<noteq> 0)"
| "truthy (PyStr s) = (s \<noteq> [])"

text \<open>\<^verbatim>\<open>d.get(k)\<close> and \<^verbatim>\<open>d.get(k, default)\<close>.\<close>

definition dict_get :: "kwargs \<Rightarrow> string \<Rightarrow> pyval" where
  "dict_get d k = (case d k of None \<Rightarrow> PyNone | Some v \<Rightarrow> v)"

definition dict_get_default :: "kwargs \<Rightarrow> string \<Rightarrow> pyval \<Rightarrow> pyval" where
  "dict_get_default d k dflt = (case d k of None \<Rightarrow> dflt | Some v \<Rightarrow> v)"

text \<open>\<^verbatim>\<open>s.startswith(p)\<close>.\<close>

definition startswith :: "string \<Rightarrow> string \<Rightarrow> bool" where
  "startswith s p = prefix p s"

text \<open>\<^verbatim>\<open>sep.join(xs)\<close>.\<close>

fun str_join :: "string \<Rightarrow> string list \<Rightarrow> string" where
  "str_join sep [] = []"
| "str_join sep [x] = x"
| "str_join sep (x # y # ys) = x @ sep @ str_join sep (y # ys)"

text \<open>\<^verbatim>\<open>s.split(sep)\<close> for a separator of one character; the result is never empty.\<close>

fun str_split :: "char \<Rightarrow> string \<Rightarrow> string list" where
  "str_split sep [] = [[]]"
| "str_split sep (c # cs) =
     (if c = sep then [] # str_split sep cs
      else (case str_split sep cs of
              [] \<Rightarrow> [[c]]
            | l # ls \<Rightarrow> (c # l) # ls))"

text \<open>\<^verbatim>\<open>s.rstrip("\n")\<close>: drop every trailing newline.\<close>

definition str_rstrip_nl :: "string \<Rightarrow> string" where
  \<open>str_rstrip_nl s = rev (dropWhile (\<lambda>c. c = CHR ''\<newline>'') (rev s))\<close>

text \<open>
  \<^verbatim>\<open>s.replace(old, new)\<close>: the occurrences of \<open>old\<close> are found from the left and do
  not overlap. With an empty \<open>old\<close>, Python inserts \<open>new\<close> before every character
  and at the end.
\<close>

function str_replace :: "string \<Rightarrow> string \<Rightarrow> string \<Rightarrow> string" where
  "str_replace old new s =
     (if old = [] then new @ concat (map (\<lambda>c. c # new) s)
      else if s = [] then []
      else if startswith s old then new @ str_replace old new (drop (length old) s)
      else hd s # str_replace old new (tl s))"
  by pat_completeness auto
termination
  by (relation "measure (\<lambda>(old, new, s). length s)") auto

declare str_replace.simps [simp del]

text \<open>
  \<^verbatim>\<open>s[i]\<close> on a string: a negative index counts from the end, an index out of
  range raises \<open>IndexError\<close>.
\<close>

definition str_getitem :: "string \<Rightarrow> int \<Rightarrow> error + char" where
  "str_getitem s i =
     (let n = int (length s); j = (if i < 0 then n + i else i)
      in if 0 \<le> j \<and> j < n then Inr (s ! nat j) else Inl IndexError)"

section \<open>The renderer\<close>

text \<open>
  \<^verbatim>\<open>RstRenderer.__init__\<close> keeps the keyword arguments as \<open>options\<close> and reads
  \<open>levels\<close> from them, with the default glyph sequence.
\<close>

record RstRenderer =
  options :: kwargs
  levels :: pyval

definition default_levels :: string where
  \<open>default_levels = ''*=-^"+:~''\<close>

definition RstRenderer_init :: "kwargs \<Rightarrow> RstRenderer" where
  "RstRenderer_init kw =
     \<lparr>options = kw, levels = dict_get_default kw ''levels'' (PyStr default_levels)\<rparr>"

text \<open>
  \<^verbatim>\<open>_indented\<close> and \<^verbatim>\<open>_directive\<close>. The standard library's \<^verbatim>\<open>textwrap.dedent\<close>
  is a parameter \<open>dedent\<close> of every function that reaches it; the attributes of a
  directive are a list of pairs in insertion order.
\<close>

definition indented :: "(string \<Rightarrow> string) \<Rightarrow> string \<Rightarrow> string" where
  \<open>indented dedent content =
     str_join ''\<newline>'' (map (\<lambda>line. ''   '' @ line) (str_split CHR ''\<newline>'' (dedent content)))\<close>

definition directive ::
  "(string \<Rightarrow> string) \<Rightarrow> string \<Rightarrow> string \<Rightarrow> string list \<Rightarrow> (string \<times> string) list \<Rightarrow> string" where
  \<open>directive dedent name content args attributes =
     ''.. '' @ name @ '':: '' @ str_join '', '' args @ ''\<newline>''
     @ concat (map (\<lambda>(key, val). ''    :'' @ key @ '': '' @ val @ ''\<newline>'') attributes)
     @ ''\<newline>''
     @ indented dedent content
     @ ''\<newline>\<newline>''\<close>

definition placeholder :: string where
  "placeholder = []"

definition block_code :: "(string \<Rightarrow> string) \<Rightarrow> string \<Rightarrow> string option \<Rightarrow> string" where
  "block_code dedent code lang =
     (let code' = str_rstrip_nl code;
          langs = (case lang of
                     None \<Rightarrow> [''none'']
                   | Some l \<Rightarrow> if l \<noteq> [] then [l] else [''none''])
      in directive dedent ''code-block'' code' langs [])"

definition block_quote :: "(string \<Rightarrow> string) \<Rightarrow> string \<Rightarrow> string" where
  "block_quote dedent text = indented dedent text"

definition block_html :: "(string \<Rightarrow> string) \<Rightarrow> RstRenderer \<Rightarrow> string \<Rightarrow> string" where
  "block_html dedent self html =
     (if truthy (dict_get (options self) ''skip_html'') then []
      else directive dedent ''raw'' html [''html''] [])"

definition header :: "RstRenderer \<Rightarrow> string \<Rightarrow> int \<Rightarrow> error + string" where
  \<open>header self text level =
     (case levels self of
        PyStr ls \<Rightarrow>
          (case str_getitem ls level of
             Inl e \<Rightarrow> Inl e
           | Inr c \<Rightarrow> Inr (text @ ''\<newline>'' @ replicate (length text) c @ ''\<newline>\<newline>''))
      | _ \<Rightarrow> Inl TypeError)\<close>

definition hrule :: string where
  \<open>hrule = ''\<newline>\<newline>--------\<newline>\<newline>''\<close>

definition list_rst :: "string \<Rightarrow> bool \<Rightarrow> string" where
  \<open>list_rst body ordered =
     (if ordered then str_replace ''\<newline>- '' ''\<newline>#.'' (''\<newline>'' @ body) else body)\<close>

text \<open>
  \<^verbatim>\<open>list_item\<close> wraps with the standard library's \<^verbatim>\<open>textwrap.fill\<close>, a parameter
  taking the text, the initial indent and the subsequent indent.
\<close>

definition list_item :: "(string \<Rightarrow> string \<Rightarrow> string \<Rightarrow> string) \<Rightarrow> string \<Rightarrow> string" where
  \<open>list_item fill text = fill text ''-  '' ''   '' @ ''\<newline>\<newline>''\<close>

definition paragraph_rst :: "string \<Rightarrow> string" where
  \<open>paragraph_rst text = text @ ''\<newline>\<newline>''\<close>

definition table :: "string \<Rightarrow> string \<Rightarrow> error + string" where
  "table header' body = Inl (NotImplementedError [])"

definition table_row :: "string \<Rightarrow> error + string" where
  "table_row content = Inl (NotImplementedError [])"

definition table_cell :: "string \<Rightarrow> kwargs \<Rightarrow> error + string" where
  "table_cell content flags = Inl (NotImplementedError [])"

definition double_emphasis :: "string \<Rightarrow> string" where
  "double_emphasis text = ''**'' @ text @ ''**''"

definition emphasis :: "string \<Rightarrow> string" where
  "emphasis text = ''*'' @ text @ ''*''"

definition codespan :: "string \<Rightarrow> string" where
  \<open>codespan text = '':code:`'' @ text @ ''`''\<close>

definition linebreak :: string where
  "linebreak = []"

definition strikethrough :: "string \<Rightarrow> string" where
  "strikethrough text = text"

definition text_rst :: "string \<Rightarrow> string" where
  "text_rst text = text"

definition autolink :: "string \<Rightarrow> bool \<Rightarrow> string" where
  \<open>autolink link is_email =
     (let text = link;
          link' = (if is_email then ''mailto:'' @ link else link)
      in if startswith link' ''ref:'' then '':ref:`'' @ text @ '' <'' @ drop 4 link' @ ''>`''
         else ''`'' @ text @ '' <'' @ link' @ ''>`__'')\<close>

definition link :: "string \<Rightarrow> string \<Rightarrow> string \<Rightarrow> string" where
  \<open>link link0 title text =
     (let link' = (if startswith link0 ''javascript:'' then [] else link0)
      in if startswith link' ''ref:'' then '':ref:`'' @ text @ '' <'' @ drop 4 link' @ ''>`''
         else ''`'' @ text @ '' <'' @ link' @ ''>`__'')\<close>

definition image_rst :: "(string \<Rightarrow> string) \<Rightarrow> string \<Rightarrow> string \<Rightarrow> string \<Rightarrow> string" where
  "image_rst dedent src title text =
     (let src' = (if startswith src ''javascript:'' then [] else src);
          opts = (if text \<noteq> [] then [(''alt'', text)] else [])
      in directive dedent ''image'' [] [src'] opts)"

definition tag :: "RstRenderer \<Rightarrow> string \<Rightarrow> string" where
  \<open>tag self html =
     (if truthy (dict_get (options self) ''skip_html'') then []
      else '':raw:`'' @ html @ ''`'')\<close>

definition newline :: string where
  "newline = []"

definition footnote_ref :: "string \<Rightarrow> int \<Rightarrow> error + string" where
  "footnote_ref key index = Inl (NotImplementedError [])"

definition footnote_item :: "string \<Rightarrow> string \<Rightarrow> error + string" where
  "footnote_item key text = Inl (NotImplementedError [])"

definition footnotes :: "string \<Rightarrow> error + string" where
  "footnotes text = Inl (NotImplementedError [])"

definition math :: "string \<Rightarrow> string" where
  \<open>math text = '':math:`'' @ text @ ''`''\<close>

definition block_math :: "(string \<Rightarrow> string) \<Rightarrow> string \<Rightarrow> string" where
  "block_math dedent text = directive dedent ''math'' text [] []"

section \<open>The lexers' math rules\<close>

text \<open>
  A successful regular-expression match is the matched span, \<^verbatim>\<open>m.group(0)\<close>, with the
  list of captured groups; a rule is a function from the text at the scan position
  to an optional match (\<^verbatim>\<open>pattern.match(text)\<close>, anchored at the start).
\<close>

type_synonym rmatch = "string \<times> string list"

type_synonym matcher = "string \<Rightarrow> rmatch option"

fun group :: "rmatch \<Rightarrow> nat \<Rightarrow> string" where
  "group m 0 = fst m"
| "group m (Suc n) = snd m ! n"

text \<open>
  The lazy group \<^verbatim>\<open>(.*?)\<close> under \<^verbatim>\<open>re.DOTALL\<close>, followed by a literal delimiter: the
  group grows one character at a time, of any kind, until the delimiter follows.
\<close>

fun lazy_until :: "string \<Rightarrow> string \<Rightarrow> string option" where
  "lazy_until delim [] = (if delim = [] then Some [] else None)"
| "lazy_until delim (c # cs) =
     (if startswith (c # cs) delim then Some []
      else map_option (Cons c) (lazy_until delim cs))"

text \<open>The block rule \<^verbatim>\<open>^\$\$(.*?)\$\$\<close> compiled with \<^verbatim>\<open>re.DOTALL\<close>.\<close>

definition block_math_rule :: matcher where
  "block_math_rule s =
     (if startswith s ''$$'' then
        (case lazy_until ''$$'' (drop 2 s) of
           None \<Rightarrow> None
         | Some g \<Rightarrow> Some (''$$'' @ g @ ''$$'', [g]))
      else None)"

text \<open>
  The inline rule \<^verbatim>\<open>^\$(.+?)\$\<close>: the lazy group takes at least one character, none
  of them a newline, until a dollar sign follows.
\<close>

fun math_interior :: "string \<Rightarrow> string option" where
  "math_interior [] = None"
| \<open>math_interior (c # cs) =
     (if c = CHR ''\<newline>'' then None
      else if startswith cs ''$'' then Some [c]
      else map_option (Cons c) (math_interior cs))\<close>

definition math_rule :: matcher where
  "math_rule s =
     (case s of
        [] \<Rightarrow> None
      | c # r \<Rightarrow>
          if c = CHR ''$'' then
            (case math_interior r of
               None \<Rightarrow> None
             | Some g \<Rightarrow> Some (''$'' @ g @ ''$'', [g]))
          else None)"

text \<open>
  The inline text rule, whose lazy run \<^verbatim>\<open>[\s\S]+?\<close> takes at least one character
  and stops as soon as the lookahead holds: one of the stop characters (with the
  dollar sign among them), a URL scheme, two or more spaces before a newline, or
  the end of the text (\<^verbatim>\<open>$\<close> also holds before a final newline).
\<close>

definition text_stop_chars :: "char list" where
  \<open>text_stop_chars =
     [CHR 0x5C, CHR ''<'', CHR ''!'', CHR ''['', CHR ''_'', CHR ''*'', CHR 0x60, CHR ''~'', CHR ''$'']\<close>

definition text_lookahead :: "string \<Rightarrow> bool" where
  \<open>text_lookahead r \<longleftrightarrow>
     (case r of [] \<Rightarrow> False | c # _ \<Rightarrow> c \<in> set text_stop_chars)
     \<or> startswith r ''http://'' \<or> startswith r ''https://''
     \<or> (let k = length (takeWhile (\<lambda>c. c = CHR '' '') r)
         in 2 \<le> k \<and> startswith (drop k r) ''\<newline>'')
     \<or> r = [] \<or> r = ''\<newline>''\<close>

fun text_span :: "string \<Rightarrow> string option" where
  "text_span [] = None"
| "text_span (c # cs) =
     (if text_lookahead cs then Some [c] else map_option (Cons c) (text_span cs))"

definition text_rule :: matcher where
  "text_rule s = map_option (\<lambda>g. (g, [])) (text_span s)"

text \<open>
  A lexer holds its rule table (\<^verbatim>\<open>self.rules\<close>, from rule name to pattern), the
  priority list \<^verbatim>\<open>self.default_rules\<close> and, for the block lexer, the tokens
  emitted so far; a token is a dictionary, kept as a list of pairs. The rule
  tables and priority lists of the base classes come from the markdown library and
  are parameters.
\<close>

record BlockLexer =
  block_rules :: "string \<Rightarrow> matcher"
  block_default_rules :: "string list"
  tokens :: "(string \<times> string) list list"

definition BlockLexer_enable_math :: "string list \<Rightarrow> BlockLexer \<Rightarrow> BlockLexer" where
  "BlockLexer_enable_math base_default_rules self =
     self\<lparr>block_rules := (block_rules self)(''block_math'' := block_math_rule),
          block_default_rules := ''block_math'' # base_default_rules\<rparr>"

definition BlockLexer_init :: "(string \<Rightarrow> matcher) \<Rightarrow> string list \<Rightarrow> BlockLexer" where
  "BlockLexer_init base_rules base_default_rules =
     BlockLexer_enable_math base_default_rules
       \<lparr>block_rules = base_rules, block_default_rules = base_default_rules, tokens = []\<rparr>"

definition parse_block_math :: "BlockLexer \<Rightarrow> rmatch \<Rightarrow> BlockLexer" where
  "parse_block_math self m =
     self\<lparr>tokens := tokens self @ [[(''type'', ''block_math''), (''text'', group m 1)]]\<rparr>"

definition output_block_math :: "(string \<Rightarrow> string) \<Rightarrow> (string \<times> string) list \<Rightarrow> error + string" where
  "output_block_math dedent token =
     (case map_of token ''text'' of
        None \<Rightarrow> Inl KeyError
      | Some t \<Rightarrow> Inr (block_math dedent t))"

record InlineLexer =
  inline_rules :: "string \<Rightarrow> matcher"
  inline_default_rules :: "string list"

definition InlineLexer_enable_math :: "string list \<Rightarrow> InlineLexer \<Rightarrow> InlineLexer" where
  "InlineLexer_enable_math base_default_rules self =
     self\<lparr>inline_rules := (inline_rules self)(''text'' := text_rule, ''math'' := math_rule),
          inline_default_rules := ''math'' # base_default_rules\<rparr>"

definition InlineLexer_init :: "(string \<Rightarrow> matcher) \<Rightarrow> string list \<Rightarrow> InlineLexer" where
  "InlineLexer_init base_rules base_default_rules =
     InlineLexer_enable_math base_default_rules
       \<lparr>inline_rules = base_rules, inline_default_rules = ''math'' # base_default_rules\<rparr>"

definition output_math :: "rmatch \<Rightarrow> string" where
  "output_math m = math (group m 1)"

text \<open>
  The base lexers try the rules of the priority list in order at the scan position;
  the first rule whose pattern matches is taken, with its match.
\<close>

fun manipulate :: "(string \<Rightarrow> matcher) \<Rightarrow> string list \<Rightarrow> string \<Rightarrow> (string \<times> rmatch) option" where
  "manipulate rules [] text = None"
| "manipulate rules (key # keys) text =
     (case rules key text of
        None \<Rightarrow> manipulate rules keys text
      | Some m \<Rightarrow> Some (key, m))"

section \<open>The entry point\<close>

text \<open>
  \<^verbatim>\<open>md2rst\<close> builds the renderer without keyword arguments and hands it, with the
  two lexer classes, to the markdown library's driver; \<open>render\<close> stands for that
  driver, from a renderer and a document to the result of the conversion.
\<close>

definition md2rst :: "(RstRenderer \<Rightarrow> string \<Rightarrow> error + string) \<Rightarrow> string \<Rightarrow> error + string" where
  "md2rst render content = (let renderer = RstRenderer_init Map.empty in render renderer content)"

section \<open>The driver\<close>

text \<open>
  Modelled from the spec: the driver that runs the lexers and calls the renderer is
  the markdown library's \<^verbatim>\<open>Markdown.render\<close>, which the repository's sources do not
  hold. By the specification (sections 3, 4.3 and 4.4), a document is lexed into an
  ordered stream of tokens, tagged by kind with the payload of the kind; a
  container holds its inner tokens; each token is rendered by the renderer method
  of its kind, from the rendered text of its inner tokens; the fragments are
  concatenated in document order, starting from the renderer's placeholder. A
  renderer method that raises ends the conversion, and the caller gets the
  exception and no output. The kinds are those of the specification's data model,
  the renderer's \<^verbatim>\<open>newline\<close>, and the six table and footnote kinds.
\<close>

datatype token =
    Header "token list" int
  | Paragraph "token list"
  | BlockQuote "token list"
  | ListBlock "token list" bool
  | ListItem "token list"
  | BlockCode string "string option"
  | BlockHtml string
  | Hrule
  | BlockMath string
  | Text string
  | Emphasis "token list"
  | DoubleEmphasis "token list"
  | Codespan string
  | Linebreak
  | Strikethrough "token list"
  | Autolink string bool
  | Link string string "token list"
  | Image string string string
  | Tag string
  | Math string
  | Table "token list" "token list"
  | TableRow "token list"
  | TableCell "token list" kwargs
  | FootnoteRef string int
  | FootnoteItem string "token list"
  | Footnotes "token list"
  | Newline

text \<open>
  \<open>render_token\<close> is the dispatch on the kind of one token, \<open>render_tokens\<close> the loop over a
  stream of tokens.
\<close>

fun render_token :: "(string \<Rightarrow> string) \<Rightarrow> (string \<Rightarrow> string \<Rightarrow> string \<Rightarrow> string) \<Rightarrow> RstRenderer
    \<Rightarrow> token \<Rightarrow> error + string"
  and render_tokens :: "(string \<Rightarrow> string) \<Rightarrow> (string \<Rightarrow> string \<Rightarrow> string \<Rightarrow> string) \<Rightarrow> RstRenderer
    \<Rightarrow> token list \<Rightarrow> error + string" where
  "render_token dedent fill self (Header ts level) =
     (case render_tokens dedent fill self ts of Inl e \<Rightarrow> Inl e | Inr s \<Rightarrow> header self s level)"
| "render_token dedent fill self (Paragraph ts) =
     (case render_tokens dedent fill self ts of Inl e \<Rightarrow> Inl e | Inr s \<Rightarrow> Inr (paragraph_rst s))"
| "render_token dedent fill self (BlockQuote ts) =
     (case render_tokens dedent fill self ts of Inl e \<Rightarrow> Inl e | Inr s \<Rightarrow> Inr (block_quote dedent s))"
| "render_token dedent fill self (ListBlock ts ordered) =
     (case render_tokens dedent fill self ts of Inl e \<Rightarrow> Inl e | Inr s \<Rightarrow> Inr (list_rst s ordered))"
| "render_token dedent fill self (ListItem ts) =
     (case render_tokens dedent fill self ts of Inl e \<Rightarrow> Inl e | Inr s \<Rightarrow> Inr (list_item fill s))"
| "render_token dedent fill self (BlockCode code lang) = Inr (block_code dedent code lang)"
| "render_token dedent fill self (BlockHtml html) = Inr (block_html dedent self html)"
| "render_token dedent fill self Hrule = Inr hrule"
| "render_token dedent fill self (BlockMath t) = Inr (block_math dedent t)"
| "render_token dedent fill self (Text t) = Inr (text_rst t)"
| "render_token dedent fill self (Emphasis ts) =
     (case render_tokens dedent fill self ts of Inl e \<Rightarrow> Inl e | Inr s \<Rightarrow> Inr (emphasis s))"
| "render_token dedent fill self (DoubleEmphasis ts) =
     (case render_tokens dedent fill self ts of Inl e \<Rightarrow> Inl e | Inr s \<Rightarrow> Inr (double_emphasis s))"
| "render_token dedent fill self (Codespan t) = Inr (codespan t)"
| "render_token dedent fill self Linebreak = Inr linebreak"
| "render_token dedent fill self (Strikethrough ts) =
     (case render_tokens dedent fill self ts of Inl e \<Rightarrow> Inl e | Inr s \<Rightarrow> Inr (strikethrough s))"
| "render_token dedent fill self (Autolink target is_email) = Inr (autolink target is_email)"
| "render_token dedent fill self (Link target title ts) =
     (case render_tokens dedent fill self ts of Inl e \<Rightarrow> Inl e | Inr s \<Rightarrow> Inr (link target title s))"
| "render_token dedent fill self (Image src title alt) = Inr (image_rst dedent src title alt)"
| "render_token dedent fill self (Tag html) = Inr (tag self html)"
| "render_token dedent fill self (Math t) = Inr (math t)"
| "render_token dedent fill self (Table hs bs) =
     (case render_tokens dedent fill self hs of
        Inl e \<Rightarrow> Inl e
      | Inr h \<Rightarrow>
          (case render_tokens dedent fill self bs of Inl e \<Rightarrow> Inl e | Inr b \<Rightarrow> table h b))"
| "render_token dedent fill self (TableRow ts) =
     (case render_tokens dedent fill self ts of Inl e \<Rightarrow> Inl e | Inr s \<Rightarrow> table_row s)"
| "render_token dedent fill self (TableCell ts flags) =
     (case render_tokens dedent fill self ts of Inl e \<Rightarrow> Inl e | Inr s \<Rightarrow> table_cell s flags)"
| "render_token dedent fill self (FootnoteRef key index) = footnote_ref key index"
| "render_token dedent fill self (FootnoteItem key ts) =
     (case render_tokens dedent fill self ts of Inl e \<Rightarrow> Inl e | Inr s \<Rightarrow> footnote_item key s)"
| "render_token dedent fill self (Footnotes ts) =
     (case render_tokens dedent fill self ts of Inl e \<Rightarrow> Inl e | Inr s \<Rightarrow> footnotes s)"
| "render_token dedent fill self Newline = Inr newline"
| "render_tokens dedent fill self [] = Inr placeholder"
| "render_tokens dedent fill self (t # ts) =
     (case render_token dedent fill self t of
        Inl e \<Rightarrow> Inl e
      | Inr s \<Rightarrow>
          (case render_tokens dedent fill self ts of Inl e \<Rightarrow> Inl e | Inr r \<Rightarrow> Inr (s @ r)))"

text \<open>
  The lexing of a document into tokens belongs to the markdown library and is the
  parameter \<open>lexer\<close> of the driver.
\<close>

definition driver :: "(string \<Rightarrow> string) \<Rightarrow> (string \<Rightarrow> string \<Rightarrow> string \<Rightarrow> string)
    \<Rightarrow> (string \<Rightarrow> token list) \<Rightarrow> RstRenderer \<Rightarrow> string \<Rightarrow> error + string" where
  "driver dedent fill lexer renderer content = render_tokens dedent fill renderer (lexer content)"

text \<open>
  A document contains a table or footnote construct when a token of one of the six
  kinds occurs in its stream, at the top or inside a container. \<open>all_header_levels\<close>
  lists the levels of the headers of a stream.
\<close>

fun unsupported :: "token \<Rightarrow> bool"
  and any_unsupported :: "token list \<Rightarrow> bool" where
  "unsupported (Table hs bs) = True"
| "unsupported (TableRow ts) = True"
| "unsupported (TableCell ts flags) = True"
| "unsupported (FootnoteRef key index) = True"
| "unsupported (FootnoteItem key ts) = True"
| "unsupported (Footnotes ts) = True"
| "unsupported (Header ts level) = any_unsupported ts"
| "unsupported (Paragraph ts) = any_unsupported ts"
| "unsupported (BlockQuote ts) = any_unsupported ts"
| "unsupported (ListBlock ts ordered) = any_unsupported ts"
| "unsupported (ListItem ts) = any_unsupported ts"
| "unsupported (Emphasis ts) = any_unsupported ts"
| "unsupported (DoubleEmphasis ts) = any_unsupported ts"
| "unsupported (Strikethrough ts) = any_unsupported ts"
| "unsupported (Link target title ts) = any_unsupported ts"
| "unsupported (BlockCode code lang) = False"
| "unsupported (BlockHtml html) = False"
| "unsupported Hrule = False"
| "unsupported (BlockMath t) = False"
| "unsupported (Text t) = False"
| "unsupported (Codespan t) = False"
| "unsupported Linebreak = False"
| "unsupported (Autolink target is_email) = False"
| "unsupported (Image src title alt) = False"
| "unsupported (Tag html) = False"
| "unsupported (Math t) = False"
| "unsupported Newline = False"
| "any_unsupported [] = False"
| "any_unsupported (t # ts) = (unsupported t \<or> any_unsupported ts)"

fun header_levels :: "token \<Rightarrow> int list"
  and all_header_levels :: "token list \<Rightarrow> int list" where
  "header_levels (Header ts level) = level # all_header_levels ts"
| "header_levels (Paragraph ts) = all_header_levels ts"
| "header_levels (BlockQuote ts) = all_header_levels ts"
| "header_levels (ListBlock ts ordered) = all_header_levels ts"
| "header_levels (ListItem ts) = all_header_levels ts"
| "header_levels (Emphasis ts) = all_header_levels ts"
| "header_levels (DoubleEmphasis ts) = all_header_levels ts"
| "header_levels (Strikethrough ts) = all_header_levels ts"
| "header_levels (Link target title ts) = all_header_levels ts"
| "header_levels (Table hs bs) = all_header_levels hs @ all_header_levels bs"
| "header_levels (TableRow ts) = all_header_levels ts"
| "header_levels (TableCell ts flags) = all_header_levels ts"
| "header_levels (FootnoteItem key ts) = all_header_levels ts"
| "header_levels (Footnotes ts) = all_header_levels ts"
| "header_levels (BlockCode code lang) = []"
| "header_levels (BlockHtml html) = []"
| "header_levels Hrule = []"
| "header_levels (BlockMath t) = []"
| "header_levels (Text t) = []"
| "header_levels (Codespan t) = []"
| "header_levels Linebreak = []"
| "header_levels (Autolink target is_email) = []"
| "header_levels (Image src title alt) = []"
| "header_levels (Tag html) = []"
| "header_levels (Math t) = []"
| "header_levels (FootnoteRef key index) = []"
| "header_levels Newline = []"
| "all_header_levels [] = []"
| "all_header_levels (t # ts) = header_levels t @ all_header_levels ts"

section \<open>The ordered-list rewrite, line by line\<close>

text \<open>
  The specification words the rewrite of an ordered list as a change of markers:
  each line of the body that begins with the marker \<open>- \<close> gets \<open>#.\<close> in its place,
  and nothing else changes. \<open>spec_rewrite_markers\<close> is that reading, to be compared
  with the string replacement of \<^verbatim>\<open>RstRenderer.list\<close>.
\<close>

definition fix_marker :: "string \<Rightarrow> string" where
  "fix_marker line = (if startswith line ''- '' then ''#.'' @ drop 2 line else line)"

definition spec_rewrite_markers :: "string \<Rightarrow> string" where
  \<open>spec_rewrite_markers body =
     str_join ''\<newline>'' (map fix_marker (str_split CHR ''\<newline>'' body))\<close>

section \<open>Headers\<close>

lemma str_getitem_in_range:
  "0 \<le> l \<Longrightarrow> nat l < length ls \<Longrightarrow> str_getitem ls l = Inr (ls ! nat l)"
  by (simp add: str_getitem_def Let_def)

text \<open>
  C1. For a levels sequence \<open>ls\<close> and a level \<open>l\<close> at which \<open>ls[l]\<close> exists, with the
  glyph \<open>c\<close> there, the rendered header is the text, a newline, \<open>c\<close> repeated once
  per character of the text, and two newlines; the underline is as long as the
  text, and with the default levels a header of level 1 is underlined with \<open>=\<close>.
\<close>

theorem header_underline:
  assumes "levels self = PyStr ls" and "str_getitem ls l = Inr c"
  shows \<open>header self t l = Inr (t @ ''\<newline>'' @ replicate (length t) c @ ''\<newline>\<newline>'')
         \<and> length (replicate (length t) c) = length t
         \<and> header (RstRenderer_init Map.empty) t 1
             = Inr (t @ ''\<newline>'' @ replicate (length t) CHR ''='' @ ''\<newline>\<newline>'')\<close>
proof -
  have first: \<open>header self t l = Inr (t @ ''\<newline>'' @ replicate (length t) c @ ''\<newline>\<newline>'')\<close>
    using assms by (simp add: header_def)
  have dflt: "str_getitem default_levels 1 = Inr CHR ''=''"
    by (simp add: str_getitem_def default_levels_def)
  have third: \<open>header (RstRenderer_init Map.empty) t 1
      = Inr (t @ ''\<newline>'' @ replicate (length t) CHR ''='' @ ''\<newline>\<newline>'')\<close>
    by (simp add: header_def RstRenderer_init_def dict_get_default_def dflt)
  from first third show ?thesis by simp
qed

theorem header_underline_witness:
  \<open>levels (RstRenderer_init Map.empty) = PyStr default_levels
   \<and> str_getitem default_levels 1 = Inr CHR ''=''
   \<and> header (RstRenderer_init Map.empty) ''Title'' 1 = Inr ''Title\<newline>=====\<newline>\<newline>''\<close>
proof -
  have lv: "levels (RstRenderer_init Map.empty) = PyStr default_levels"
    by (simp add: RstRenderer_init_def dict_get_default_def)
  have ix: "str_getitem default_levels 1 = Inr CHR ''=''"
    by (simp add: str_getitem_def default_levels_def)
  from header_underline [OF lv ix, of "''Title''"] lv ix show ?thesis
    by simp
qed

section \<open>Unsupported constructs\<close>

lemma unsupported_fails:
  "unsupported t \<Longrightarrow> \<exists>e. render_token dedent fill self t = Inl e"
  "any_unsupported ts \<Longrightarrow> \<exists>e. render_tokens dedent fill self ts = Inl e"
  by (induction dedent fill self t and dedent fill self ts rule: render_token_render_tokens.induct)
    (auto simp: table_def table_row_def table_cell_def footnote_ref_def footnote_item_def
      footnotes_def split: sum.splits)

lemma header_total:
  assumes "levels self = PyStr ls" and "6 < length ls" and "1 \<le> l" and "l \<le> 6"
  shows "\<exists>s. header self t l = Inr s"
  using assms by (simp add: header_def str_getitem_def)

lemma render_error_unsupported:
  "levels self = PyStr ls \<Longrightarrow> 6 < length ls
     \<Longrightarrow> \<forall>l \<in> set (header_levels t). 1 \<le> l \<and> l \<le> 6
     \<Longrightarrow> render_token dedent fill self t = Inl e
     \<Longrightarrow> e = NotImplementedError []"
  "levels self = PyStr ls \<Longrightarrow> 6 < length ls
     \<Longrightarrow> \<forall>l \<in> set (all_header_levels ts). 1 \<le> l \<and> l \<le> 6
     \<Longrightarrow> render_tokens dedent fill self ts = Inl e
     \<Longrightarrow> e = NotImplementedError []"
proof (induction dedent fill self t and dedent fill self ts
    arbitrary: e and e rule: render_token_render_tokens.induct)
  case (1 dedent fill self ts level)
  from "1.prems"(3) have lv: "1 \<le> level" "level \<le> 6"
    and sub: "\<forall>l \<in> set (all_header_levels ts). 1 \<le> l \<and> l \<le> 6"
    by simp_all
  show ?case
  proof (cases "render_tokens dedent fill self ts")
    case (Inl e')
    with "1.prems"(4) have "e = e'" by simp
    with "1.IH" [OF "1.prems"(1,2) sub Inl] show ?thesis by simp
  next
    case (Inr s)
    with "1.prems"(4) header_total [OF "1.prems"(1,2) lv, of s] show ?thesis by auto
  qed
qed (simp_all add: table_def table_row_def table_cell_def footnote_ref_def
    footnote_item_def footnotes_def split: sum.splits)

text \<open>
  C2, as the code has it. A document whose token stream contains a table or
  footnote construct is not converted: whatever the renderer, the driver returns an
  exception and no output, and so does \<^verbatim>\<open>md2rst\<close>. When the header levels of the
  document are the levels 1 to 6 of markdown, the exception of \<^verbatim>\<open>md2rst\<close> is the
  \<open>NotImplementedError\<close> of the table or footnote method, which each of the six
  methods raises at once and without arguments, so without the name of a construct.
\<close>

theorem unsupported_document_fails:
  assumes "any_unsupported (lexer content)"
  shows "(\<exists>e. driver dedent fill lexer self content = Inl e)
     \<and> (\<exists>e. md2rst (driver dedent fill lexer) content = Inl e)
     \<and> ((\<forall>l \<in> set (all_header_levels (lexer content)). 1 \<le> l \<and> l \<le> 6)
          \<longrightarrow> md2rst (driver dedent fill lexer) content = Inl (NotImplementedError []))
     \<and> table header' body = Inl (NotImplementedError [])
     \<and> table_row row = Inl (NotImplementedError [])
     \<and> table_cell cell flags = Inl (NotImplementedError [])
     \<and> footnote_ref key index = Inl (NotImplementedError [])
     \<and> footnote_item key text = Inl (NotImplementedError [])
     \<and> footnotes text = Inl (NotImplementedError [])"
proof -
  have any: "\<exists>e. driver dedent fill lexer r content = Inl e" for r
    using unsupported_fails(2) [OF assms] by (simp add: driver_def)
  then obtain e where e: "md2rst (driver dedent fill lexer) content = Inl e"
    by (auto simp: md2rst_def)
  have exact: "md2rst (driver dedent fill lexer) content = Inl (NotImplementedError [])"
    if "\<forall>l \<in> set (all_header_levels (lexer content)). 1 \<le> l \<and> l \<le> 6"
  proof -
    have lv: "levels (RstRenderer_init Map.empty) = PyStr default_levels"
      by (simp add: RstRenderer_init_def dict_get_default_def)
    have len: "6 < length default_levels"
      by (simp add: default_levels_def)
    from e have "render_tokens dedent fill (RstRenderer_init Map.empty) (lexer content) = Inl e"
      by (simp add: md2rst_def driver_def)
    from render_error_unsupported(2) [OF lv len that this] e show ?thesis by simp
  qed
  have methods: "table header' body = Inl (NotImplementedError [])
     \<and> table_row row = Inl (NotImplementedError [])
     \<and> table_cell cell flags = Inl (NotImplementedError [])
     \<and> footnote_ref key index = Inl (NotImplementedError [])
     \<and> footnote_item key text = Inl (NotImplementedError [])
     \<and> footnotes text = Inl (NotImplementedError [])"
    by (simp add: table_def table_row_def table_cell_def footnote_ref_def footnote_item_def
        footnotes_def)
  from any e exact methods show ?thesis by blast
qed

theorem unsupported_document_fails_witness:
  \<open>any_unsupported
     [Header [Text ''T''] 1, Paragraph [Text ''see '', FootnoteRef ''n'' 1],
      Table [TableRow [TableCell [Text ''h''] Map.empty]] []]
   \<and> md2rst (driver (\<lambda>s. s) (\<lambda>t i s. i @ t)
        (\<lambda>c. [Header [Text ''T''] 1, Paragraph [Text ''see '', FootnoteRef ''n'' 1],
              Table [TableRow [TableCell [Text ''h''] Map.empty]] []]))
       ''T\<newline>=\<newline>\<newline>see [^n]\<newline>\<newline>|h|\<newline>|-|\<newline>''
     = Inl (NotImplementedError [])\<close>
proof -
  let ?doc = \<open>[Header [Text ''T''] 1, Paragraph [Text ''see '', FootnoteRef ''n'' 1],
      Table [TableRow [TableCell [Text ''h''] Map.empty]] []]\<close>
  have u: "any_unsupported ?doc" by simp
  have l: "\<forall>l \<in> set (all_header_levels ?doc). 1 \<le> l \<and> l \<le> 6" by simp
  note t = unsupported_document_fails [where lexer = "\<lambda>c. ?doc" and dedent = "\<lambda>s. s"
      and fill = "\<lambda>t i s. i @ t"
      and content = \<open>''T\<newline>=\<newline>\<newline>see [^n]\<newline>\<newline>|h|\<newline>|-|\<newline>''\<close>, OF u]
  note imp = t [THEN conjunct2, THEN conjunct2, THEN conjunct1]
  note res = imp [THEN mp, OF l]
  from u res show ?thesis by (rule conjI)
qed

text \<open>
  The failure of a table is the failure of a footnote reference: the same exception,
  with an empty argument list, so that nothing in it tells which construct was met.
\<close>

theorem unsupported_error_unnamed:
  "table ''a|b'' ''1|2'' = Inl (NotImplementedError [])
   \<and> table ''a|b'' ''1|2'' = footnote_ref ''k'' 1"
  by (simp add: table_def footnote_ref_def)

section \<open>Links and images\<close>

lemma indented_empty: \<open>indented (\<lambda>s. s) [] = ''   ''\<close>
  by (simp add: indented_def)

text \<open>
  C3. A link target or image source beginning with \<open>javascript:\<close> is blanked: the
  link is the external hyperlink with the original text and an empty destination,
  the image is the image directive with an empty argument and, for a text that is
  not empty, the \<open>:alt:\<close> attribute. The output is the same whatever follows the
  prefix, so nothing of the target is left in it.
\<close>

theorem javascript_defanged:
  \<open>link (''javascript:'' @ rest) title text = ''`'' @ text @ '' <>`__''
   \<and> image_rst dedent (''javascript:'' @ rest) title text
       = ''.. image:: \<newline>''
         @ (if text \<noteq> [] then ''    :alt: '' @ text @ ''\<newline>'' else [])
         @ ''\<newline>'' @ indented dedent [] @ ''\<newline>\<newline>''\<close>
  by (simp add: link_def image_rst_def directive_def Let_def startswith_def)

theorem javascript_defanged_witness:
  \<open>link ''javascript:alert(1)'' ''t'' ''x'' = ''`x <>`__''
   \<and> image_rst (\<lambda>s. s) ''javascript:alert(1)'' ''t'' ''x''
       = ''.. image:: \<newline>    :alt: x\<newline>\<newline>   \<newline>\<newline>''\<close>
  using javascript_defanged [of "''alert(1)''" "''t''" "''x''" "\<lambda>s. s"]
  by (simp add: indented_empty)

text \<open>
  C4 at the autolink \<^verbatim>\<open><javascript:alert(1)>\<close>: \<^verbatim>\<open>autolink\<close> has no test for the
  script scheme, and the target stays in the output as label and as destination.
\<close>

theorem autolink_keeps_javascript:
  \<open>autolink ''javascript:alert(1)'' False = ''`javascript:alert(1) <javascript:alert(1)>`__''\<close>
  by (simp add: autolink_def startswith_def)

text \<open>
  C5. A link whose target begins with \<open>ref:\<close> is the \<open>:ref:\<close> role with the text as
  label and the target without its prefix, and no trailing underscores; a link
  whose target begins with neither \<open>ref:\<close> nor the script scheme is the external
  hyperlink. An autolink branches in the same way, with the target itself as label.
\<close>

theorem ref_links_rewritten:
  \<open>link (''ref:'' @ target) title t = '':ref:`'' @ t @ '' <'' @ target @ ''>`''
   \<and> (\<not> startswith u ''ref:'' \<and> \<not> startswith u ''javascript:''
        \<longrightarrow> link u title t = ''`'' @ t @ '' <'' @ u @ ''>`__'')
   \<and> autolink (''ref:'' @ target) False = '':ref:`ref:'' @ target @ '' <'' @ target @ ''>`''
   \<and> (\<not> startswith u ''ref:'' \<longrightarrow> autolink u False = ''`'' @ u @ '' <'' @ u @ ''>`__'')\<close>
proof -
  have a: \<open>link (''ref:'' @ target) title t = '':ref:`'' @ t @ '' <'' @ target @ ''>`''\<close>
    by (simp add: link_def startswith_def)
  have b: \<open>autolink (''ref:'' @ target) False
      = '':ref:`ref:'' @ target @ '' <'' @ target @ ''>`''\<close>
    by (simp add: autolink_def startswith_def)
  have c: \<open>\<not> startswith u ''ref:'' \<and> \<not> startswith u ''javascript:''
        \<longrightarrow> link u title t = ''`'' @ t @ '' <'' @ u @ ''>`__''\<close>
    by (simp add: link_def)
  have d: \<open>\<not> startswith u ''ref:'' \<longrightarrow> autolink u False = ''`'' @ u @ '' <'' @ u @ ''>`__''\<close>
    by (simp add: autolink_def)
  from a b c d show ?thesis by blast
qed

theorem ref_links_rewritten_witness:
  \<open>link ''ref:some-label'' [] ''See this'' = '':ref:`See this <some-label>`''
   \<and> link ''http://example.com'' [] ''Example'' = ''`Example <http://example.com>`__''
   \<and> autolink ''http://example.com'' False = ''`http://example.com <http://example.com>`__''\<close>
proof -
  have h1: "\<not> startswith ''http://example.com'' ''ref:''" by (simp add: startswith_def)
  have h2: "\<not> startswith ''http://example.com'' ''javascript:''" by (simp add: startswith_def)
  show ?thesis
    using ref_links_rewritten [of "''some-label''" "[]" "''See this''" "''http://example.com''"]
      ref_links_rewritten [of "[]" "[]" "''Example''" "''http://example.com''"] h1 h2
    by simp
qed

section \<open>Raw HTML\<close>

text \<open>
  C8. When the \<open>skip_html\<close> option is false (or absent), a raw HTML block is the
  \<open>raw:: html\<close> directive: the directive line with the argument \<open>html\<close>, an empty
  line, every line of the dedented HTML behind three spaces, and two newlines; an
  inline tag is the \<open>:raw:\<close> role. When the option is true, both are the empty
  string. What \<^verbatim>\<open>textwrap.dedent\<close> returns depends on the version of the standard
  library, so it stays a parameter.
\<close>

theorem skip_html_option:
  \<open>(\<not> truthy (dict_get (options self) ''skip_html'')
      \<longrightarrow> block_html dedent self h
            = ''.. raw:: html\<newline>\<newline>''
              @ str_join ''\<newline>''
                  (map (\<lambda>line. ''   '' @ line) (str_split CHR ''\<newline>'' (dedent h)))
              @ ''\<newline>\<newline>''
          \<and> tag self h = '':raw:`'' @ h @ ''`'')
   \<and> (truthy (dict_get (options self) ''skip_html'')
      \<longrightarrow> block_html dedent self h = [] \<and> tag self h = [])\<close>
  by (simp add: block_html_def tag_def directive_def indented_def)

theorem skip_html_option_witness:
  \<open>\<not> truthy (dict_get (options (RstRenderer_init [''skip_html'' \<mapsto> PyBool False])) ''skip_html'')
   \<and> truthy (dict_get (options (RstRenderer_init [''skip_html'' \<mapsto> PyBool True])) ''skip_html'')
   \<and> block_html (\<lambda>s. s) (RstRenderer_init [''skip_html'' \<mapsto> PyBool False])
         ''<div>\<newline><b>x</b>\<newline></div>''
       = ''.. raw:: html\<newline>\<newline>   <div>\<newline>   <b>x</b>\<newline>   </div>\<newline>\<newline>''
   \<and> tag (RstRenderer_init [''skip_html'' \<mapsto> PyBool False]) ''<b>'' = '':raw:`<b>`''
   \<and> block_html (\<lambda>s. s) (RstRenderer_init [''skip_html'' \<mapsto> PyBool True])
         ''<div>\<newline><b>x</b>\<newline></div>'' = []
   \<and> tag (RstRenderer_init [''skip_html'' \<mapsto> PyBool True]) ''<b>'' = []\<close>
proof -
  have f: "\<not> truthy (dict_get (options (RstRenderer_init [''skip_html'' \<mapsto> PyBool False])) ''skip_html'')"
    by (simp add: RstRenderer_init_def dict_get_def)
  have t: "truthy (dict_get (options (RstRenderer_init [''skip_html'' \<mapsto> PyBool True])) ''skip_html'')"
    by (simp add: RstRenderer_init_def dict_get_def)
  show ?thesis
    using f t
      skip_html_option [of "RstRenderer_init [''skip_html'' \<mapsto> PyBool False]" "\<lambda>s. s"
        \<open>''<div>\<newline><b>x</b>\<newline></div>''\<close>]
      skip_html_option [of "RstRenderer_init [''skip_html'' \<mapsto> PyBool False]" "\<lambda>s. s" "''<b>''"]
      skip_html_option [of "RstRenderer_init [''skip_html'' \<mapsto> PyBool True]" "\<lambda>s. s"
        \<open>''<div>\<newline><b>x</b>\<newline></div>''\<close>]
      skip_html_option [of "RstRenderer_init [''skip_html'' \<mapsto> PyBool True]" "\<lambda>s. s" "''<b>''"]
    by simp
qed

section \<open>The options of the entry point\<close>

text \<open>
  C10. \<^verbatim>\<open>md2rst\<close> runs the driver on the renderer built from no keyword arguments,
  whatever the document: its options are empty, so \<open>skip_html\<close> is not set and raw
  HTML is rendered, and its levels are the default glyph sequence. The document is
  the only argument besides the driver, so no other options can be given.
\<close>

theorem md2rst_default_options:
  \<open>md2rst render content = render \<lparr>options = Map.empty, levels = PyStr ''*=-^"+:~''\<rparr> content
   \<and> \<not> truthy (dict_get (options (RstRenderer_init Map.empty)) ''skip_html'')
   \<and> levels (RstRenderer_init Map.empty) = PyStr ''*=-^"+:~''
   \<and> block_html dedent (RstRenderer_init Map.empty) h
       = ''.. raw:: html\<newline>\<newline>'' @ indented dedent h @ ''\<newline>\<newline>''
   \<and> tag (RstRenderer_init Map.empty) h = '':raw:`'' @ h @ ''`''\<close>
  by (simp add: md2rst_def RstRenderer_init_def dict_get_default_def dict_get_def
      default_levels_def block_html_def tag_def directive_def)

section \<open>Ordered and unordered lists\<close>

lemma str_split_not_Nil: "str_split sep s \<noteq> []"
  by (induction s) (auto split: list.splits)

lemma str_split_Cons_other:
  "c \<noteq> sep \<Longrightarrow> str_split sep (c # cs) = (c # hd (str_split sep cs)) # tl (str_split sep cs)"
  using str_split_not_Nil [of sep cs] by (cases "str_split sep cs") auto

lemma str_split_Cons_sep: "str_split sep (sep # cs) = [] # str_split sep cs"
  by simp

lemma str_join_hd_append: "str_join sep ((x @ l) # r) = x @ str_join sep (l # r)"
  by (cases r) auto

lemma str_join_Cons_Cons: "r \<noteq> [] \<Longrightarrow> str_join sep (l # r) = l @ sep @ str_join sep r"
  by (cases r) auto

lemma marker_replace_Nil: \<open>str_replace ''\<newline>- '' ''\<newline>#.'' [] = []\<close>
  by (simp add: str_replace.simps)

lemma marker_replace_match:
  \<open>str_replace ''\<newline>- '' ''\<newline>#.'' (''\<newline>- '' @ s) = ''\<newline>#.'' @ str_replace ''\<newline>- '' ''\<newline>#.'' s\<close>
  by (subst str_replace.simps) (simp add: startswith_def)

lemma marker_replace_other:
  \<open>\<not> startswith (c # cs) ''\<newline>- '' \<Longrightarrow>
   str_replace ''\<newline>- '' ''\<newline>#.'' (c # cs) = c # str_replace ''\<newline>- '' ''\<newline>#.'' cs\<close>
  by (subst str_replace.simps) simp

lemma first_line_marker:
  \<open>startswith (hd (str_split CHR ''\<newline>'' s)) ''- '' \<longleftrightarrow> startswith s ''- ''\<close>
proof (cases s)
  case Nil
  then show ?thesis by (simp add: startswith_def)
next
  case (Cons c cs)
  show ?thesis
  proof (cases cs)
    case Nil
    with Cons show ?thesis by (auto simp: startswith_def)
  next
    case (Cons d ds)
    with \<open>s = c # cs\<close> show ?thesis
      using str_split_not_Nil [of \<open>CHR ''\<newline>''\<close> ds]
      by (cases \<open>str_split CHR ''\<newline>'' ds\<close>) (auto simp: startswith_def)
  qed
qed

lemma marker_replace_lines:
  \<open>str_replace ''\<newline>- '' ''\<newline>#.'' s
   = str_join ''\<newline>'' (hd (str_split CHR ''\<newline>'' s) # map fix_marker (tl (str_split CHR ''\<newline>'' s)))\<close>
proof (induction "length s" arbitrary: s rule: less_induct)
  case less
  show ?case
  proof (cases s)
    case Nil
    then show ?thesis by (simp add: marker_replace_Nil)
  next
    case (Cons c cs)
    show ?thesis
    proof (cases \<open>startswith s ''\<newline>- ''\<close>)
      case True
      then obtain s' where s: \<open>s = ''\<newline>- '' @ s'\<close>
        by (auto simp: startswith_def prefix_def)
      have len: "length s' < length s" using s by simp
      have sp: \<open>str_split CHR ''\<newline>'' s
          = [] # (''- '' @ hd (str_split CHR ''\<newline>'' s')) # tl (str_split CHR ''\<newline>'' s')\<close>
        using s by (simp add: str_split_Cons_other str_split_Cons_sep del: str_split.simps(2))
      have \<open>str_replace ''\<newline>- '' ''\<newline>#.'' s = ''\<newline>#.'' @ str_replace ''\<newline>- '' ''\<newline>#.'' s'\<close>
        unfolding s by (rule marker_replace_match)
      also have \<open>\<dots> = ''\<newline>#.'' @ str_join ''\<newline>''
          (hd (str_split CHR ''\<newline>'' s') # map fix_marker (tl (str_split CHR ''\<newline>'' s')))\<close>
        using less [OF len] by simp
      also have \<open>\<dots> = str_join ''\<newline>''
          (hd (str_split CHR ''\<newline>'' s) # map fix_marker (tl (str_split CHR ''\<newline>'' s)))\<close>
        unfolding sp
        using str_join_hd_append [of \<open>''\<newline>''\<close> \<open>''#.''\<close> \<open>hd (str_split CHR ''\<newline>'' s')\<close>
            \<open>map fix_marker (tl (str_split CHR ''\<newline>'' s'))\<close>]
        by (simp add: fix_marker_def startswith_def)
      finally show ?thesis .
    next
      case False
      have len: "length cs < length s" using Cons by simp
      have step: \<open>str_replace ''\<newline>- '' ''\<newline>#.'' s = c # str_replace ''\<newline>- '' ''\<newline>#.'' cs\<close>
        using False unfolding Cons by (rule marker_replace_other)
      have ih: \<open>str_replace ''\<newline>- '' ''\<newline>#.'' cs = str_join ''\<newline>''
          (hd (str_split CHR ''\<newline>'' cs) # map fix_marker (tl (str_split CHR ''\<newline>'' cs)))\<close>
        using less [OF len] .
      show ?thesis
      proof (cases \<open>c = CHR ''\<newline>''\<close>)
        case True
        have nomark: \<open>\<not> startswith cs ''- ''\<close>
          using False Cons True by (simp add: startswith_def)
        then have fx: \<open>fix_marker (hd (str_split CHR ''\<newline>'' cs)) = hd (str_split CHR ''\<newline>'' cs)\<close>
          by (simp add: fix_marker_def first_line_marker)
        have sp: \<open>str_split CHR ''\<newline>'' s = [] # str_split CHR ''\<newline>'' cs\<close>
          using Cons True by simp
        have \<open>map fix_marker (str_split CHR ''\<newline>'' cs)
            = hd (str_split CHR ''\<newline>'' cs) # map fix_marker (tl (str_split CHR ''\<newline>'' cs))\<close>
          using str_split_not_Nil [of \<open>CHR ''\<newline>''\<close> cs] fx
          by (cases \<open>str_split CHR ''\<newline>'' cs\<close>) auto
        then show ?thesis
          using step ih sp True by simp
      next
        case False
        have sp: \<open>str_split CHR ''\<newline>'' s
            = (c # hd (str_split CHR ''\<newline>'' cs)) # tl (str_split CHR ''\<newline>'' cs)\<close>
          using Cons False by (simp add: str_split_Cons_other del: str_split.simps(2))
        show ?thesis
          unfolding sp using step ih
            str_join_hd_append [of \<open>''\<newline>''\<close> \<open>[c]\<close> \<open>hd (str_split CHR ''\<newline>'' cs)\<close>
              \<open>map fix_marker (tl (str_split CHR ''\<newline>'' cs))\<close>]
          by simp
      qed
    qed
  qed
qed

text \<open>
  C9, as the renderer has it. For an ordered list the output is a newline followed
  by the body in which every line beginning with \<open>- \<close> has \<open>#.\<close> in place of that
  marker, nothing else changed; for an unordered list it is the body itself.
\<close>

theorem ordered_list_rewrite:
  \<open>list_rst body True = ''\<newline>'' @ spec_rewrite_markers body
   \<and> list_rst body False = body\<close>
proof -
  have ne: \<open>map fix_marker (str_split CHR ''\<newline>'' body) \<noteq> []\<close>
    using str_split_not_Nil [of \<open>CHR ''\<newline>''\<close> body] by simp
  have \<open>str_replace ''\<newline>- '' ''\<newline>#.'' (''\<newline>'' @ body)
      = str_join ''\<newline>'' ([] # map fix_marker (str_split CHR ''\<newline>'' body))\<close>
    by (simp add: marker_replace_lines)
  also have \<open>\<dots> = ''\<newline>'' @ spec_rewrite_markers body\<close>
    using str_join_Cons_Cons [OF ne, of \<open>''\<newline>''\<close> \<open>[]\<close>] by (simp add: spec_rewrite_markers_def)
  finally show ?thesis by (simp add: list_rst_def)
qed

text \<open>
  The body of one rendered item: the ordered list starts with a newline that the
  body does not have, so it is not the body with only its markers rewritten.
\<close>

theorem ordered_list_leading_newline:
  \<open>list_rst ''-  a\<newline>\<newline>'' True = ''\<newline>#. a\<newline>\<newline>''
   \<and> spec_rewrite_markers ''-  a\<newline>\<newline>'' = ''#. a\<newline>\<newline>''
   \<and> list_rst ''-  a\<newline>\<newline>'' True \<noteq> spec_rewrite_markers ''-  a\<newline>\<newline>''\<close>
proof -
  have a: \<open>spec_rewrite_markers ''-  a\<newline>\<newline>'' = ''#. a\<newline>\<newline>''\<close>
    by (simp add: spec_rewrite_markers_def fix_marker_def startswith_def)
  have b: \<open>list_rst ''-  a\<newline>\<newline>'' True = ''\<newline>#. a\<newline>\<newline>''\<close>
    by (simp add: list_rst_def str_replace.simps startswith_def)
  from a b show ?thesis by simp
qed

section \<open>Block math\<close>

lemma manipulate_only:
  "key \<in> set keys \<Longrightarrow> rules key text = Some m
   \<Longrightarrow> \<forall>k \<in> set keys. k \<noteq> key \<longrightarrow> rules k text = None
   \<Longrightarrow> manipulate rules keys text = Some (key, m)"
  by (induction keys) auto

lemma lazy_until_prefix:
  "lazy_until d s = Some g \<Longrightarrow> prefix (g @ d) s"
proof (induction s arbitrary: g)
  case Nil
  then show ?case by (simp split: if_splits)
next
  case (Cons c cs)
  then show ?case by (auto simp: startswith_def split: if_splits)
qed

lemma lazy_until_shortest:
  "lazy_until d s = Some g \<Longrightarrow> prefix (g' @ d) s \<Longrightarrow> length g \<le> length g'"
proof (induction s arbitrary: g g')
  case Nil
  then show ?case by (simp split: if_splits)
next
  case (Cons c cs)
  show ?case
  proof (cases "startswith (c # cs) d")
    case True
    with Cons.prems show ?thesis by simp
  next
    case False
    with Cons.prems obtain h where h: "lazy_until d cs = Some h" "g = c # h"
      by auto
    from False Cons.prems(2) obtain e g'' where g': "g' = e # g''"
      by (cases g') (auto simp: startswith_def)
    with Cons.prems(2) have "prefix (g'' @ d) cs" by simp
    from Cons.IH [OF h(1) this] h(2) g' show ?thesis by simp
  qed
qed

lemma lazy_until_complete:
  "prefix (g' @ d) s \<Longrightarrow> \<exists>g. lazy_until d s = Some g"
proof (induction s arbitrary: g')
  case Nil
  then show ?case by simp
next
  case (Cons c cs)
  show ?case
  proof (cases "startswith (c # cs) d")
    case True
    then show ?thesis by simp
  next
    case False
    with Cons.prems obtain e g'' where g': "g' = e # g''"
      by (cases g') (auto simp: startswith_def)
    with Cons.prems have "prefix (g'' @ d) cs" by simp
    from Cons.IH [OF this] False show ?thesis by auto
  qed
qed

lemma block_lexer_rules:
  "block_rules (BlockLexer_init base_rules base_default_rules) ''block_math'' = block_math_rule
   \<and> block_default_rules (BlockLexer_init base_rules base_default_rules)
       = ''block_math'' # base_default_rules"
  by (simp add: BlockLexer_init_def BlockLexer_enable_math_def)

text \<open>
  C6, as the lexer has it. On a text that begins with \<open>$$\<close>, an interior of any
  characters (newlines among them) and \<open>$$\<close>, the block rule matches, and lazily:
  its interior \<open>g\<close> is no longer than any such interior, so the match ends at the
  first closing \<open>$$\<close>. The rule is the first of the priority list, so it is taken
  whatever the standard rules are, and \<^verbatim>\<open>parse_block_math\<close> appends a token of type
  \<open>block_math\<close> whose text is \<open>g\<close>, the delimiters stripped.
\<close>

theorem block_math_rule_first_closing:
  assumes "prefix (''$$'' @ interior @ ''$$'') s"
  shows "\<exists>g. block_math_rule s = Some (''$$'' @ g @ ''$$'', [g])
           \<and> prefix (''$$'' @ g @ ''$$'') s
           \<and> length g \<le> length interior
           \<and> manipulate (block_rules (BlockLexer_init base_rules base_default_rules))
                (block_default_rules (BlockLexer_init base_rules base_default_rules)) s
               = Some (''block_math'', (''$$'' @ g @ ''$$'', [g]))
           \<and> tokens (parse_block_math self (''$$'' @ g @ ''$$'', [g]))
               = tokens self @ [[(''type'', ''block_math''), (''text'', g)]]"
proof -
  from assms obtain r where s: "s = ''$$'' @ r" and r: "prefix (interior @ ''$$'') r"
    by (auto simp: prefix_def)
  from lazy_until_complete [OF r] obtain g where g: "lazy_until ''$$'' r = Some g"
    by blast
  have m: "block_math_rule s = Some (''$$'' @ g @ ''$$'', [g])"
    using s g by (simp add: block_math_rule_def startswith_def)
  have p: "prefix (''$$'' @ g @ ''$$'') s"
    using lazy_until_prefix [OF g] s by simp
  have l: "length g \<le> length interior"
    using lazy_until_shortest [OF g r] .
  have d: "manipulate (block_rules (BlockLexer_init base_rules base_default_rules))
                (block_default_rules (BlockLexer_init base_rules base_default_rules)) s
               = Some (''block_math'', (''$$'' @ g @ ''$$'', [g]))"
    using m by (simp add: block_lexer_rules)
  have t: "tokens (parse_block_math self (''$$'' @ g @ ''$$'', [g]))
               = tokens self @ [[(''type'', ''block_math''), (''text'', g)]]"
    by (simp add: parse_block_math_def)
  from m p l d t show ?thesis by blast
qed

text \<open>
  With two closing delimiters in the text, the match stops at the first one; a
  greedy match would run to the last.
\<close>

theorem block_math_rule_not_greedy:
  "block_math_rule ''$$a$$b$$'' = Some (''$$a$$'', [''a''])
   \<and> block_math_rule ''$$a$$b$$'' \<noteq> Some (''$$a$$b$$'', [''a$$b''])"
  by (simp add: block_math_rule_def startswith_def)

theorem block_math_rule_first_closing_witness:
  \<open>prefix (''$$'' @ ''x\<newline>y$$z'' @ ''$$'') ''$$x\<newline>y$$z$$''
   \<and> block_math_rule ''$$x\<newline>y$$z$$'' = Some (''$$x\<newline>y$$'', [''x\<newline>y''])
   \<and> (\<exists>g. block_math_rule ''$$x\<newline>y$$z$$'' = Some (''$$'' @ g @ ''$$'', [g])
         \<and> length g \<le> length ''x\<newline>y$$z''
         \<and> manipulate (block_rules (BlockLexer_init (\<lambda>k t. None) [''paragraph'']))
              (block_default_rules (BlockLexer_init (\<lambda>k t. None) [''paragraph''])) ''$$x\<newline>y$$z$$''
             = Some (''block_math'', (''$$'' @ g @ ''$$'', [g])))\<close>
proof -
  have h: \<open>prefix (''$$'' @ ''x\<newline>y$$z'' @ ''$$'') ''$$x\<newline>y$$z$$''\<close>
    by simp
  have v: \<open>block_math_rule ''$$x\<newline>y$$z$$'' = Some (''$$x\<newline>y$$'', [''x\<newline>y''])\<close>
    by (simp add: block_math_rule_def startswith_def)
  from block_math_rule_first_closing [OF h, of "\<lambda>k t. None" "[''paragraph'']"] h v
  show ?thesis by blast
qed

section \<open>Unclosed math delimiters\<close>

lemma math_interior_None_iff:
  \<open>math_interior r = None \<longleftrightarrow> CHR ''$'' \<notin> set (tl (takeWhile (\<lambda>c. c \<noteq> CHR ''\<newline>'') r))\<close>
proof (induction r)
  case Nil
  then show ?case by simp
next
  case (Cons c cs)
  show ?case
  proof (cases \<open>c = CHR ''\<newline>''\<close>)
    case True
    then show ?thesis by simp
  next
    case nl: False
    show ?thesis
    proof (cases cs)
      case Nil
      with nl show ?thesis by (simp add: startswith_def)
    next
      case (Cons d ds)
      show ?thesis
      proof (cases \<open>d = CHR ''$''\<close>)
        case True
        with nl Cons show ?thesis by (simp add: startswith_def)
      next
        case False
        with nl Cons Cons.IH show ?thesis by (simp add: startswith_def)
      qed
    qed
  qed
qed

lemma text_span_total: "s \<noteq> [] \<Longrightarrow> \<exists>g. text_span s = Some (hd s # g) \<and> prefix (hd s # g) s"
proof (induction s)
  case Nil
  then show ?case by simp
next
  case (Cons c cs)
  show ?case
  proof (cases "text_lookahead cs")
    case True
    then show ?thesis by simp
  next
    case False
    then have "cs \<noteq> []" by (auto simp: text_lookahead_def)
    from Cons.IH [OF this] False show ?thesis by auto
  qed
qed

lemma inline_lexer_rules:
  "inline_rules (InlineLexer_init base_rules base_default_rules)
     = base_rules(''text'' := text_rule, ''math'' := math_rule)
   \<and> inline_default_rules (InlineLexer_init base_rules base_default_rules)
       = ''math'' # base_default_rules"
  by (simp add: InlineLexer_init_def InlineLexer_enable_math_def)

lemma manipulate_table_cong:
  "\<forall>k \<in> set keys. rules k text = rules' k text
   \<Longrightarrow> manipulate rules keys text = manipulate rules' keys text"
  by (induction keys) (auto split: option.splits)

text \<open>
  C7, as the lexers have it. At a dollar sign with no closing dollar sign on its
  line (after at least one character), the inline math rule does not match; when no
  standard rule other than the text rule matches there, the scan has a result, the
  text rule, whose span begins with the dollar sign and is rendered as it is. A
  text that begins with \<open>$$\<close> and has no further \<open>$$\<close> is not matched by the block
  math rule, and the scan is the one of the standard block rules, as without the
  math extension. Inside such a block the dollar signs are literal text when the
  inline math rule fails too: with no dollar sign on the first line after the
  opening \<open>$$\<close>, the inline scan at the opening takes the text rule with the span
  \<open>$\<close>, and the first part applies at the second dollar sign.
\<close>

theorem unclosed_dollar_is_text:
  \<open>(CHR ''$'' \<notin> set (tl (takeWhile (\<lambda>c. c \<noteq> CHR ''\<newline>'') rest))
     \<and> ''text'' \<in> set base_default_rules
     \<and> (\<forall>key \<in> set base_default_rules. key \<noteq> ''text'' \<and> key \<noteq> ''math''
            \<longrightarrow> base_rules key (CHR ''$'' # rest) = None)
     \<longrightarrow> math_rule (CHR ''$'' # rest) = None
         \<and> (\<exists>g. manipulate (inline_rules (InlineLexer_init base_rules base_default_rules))
                   (inline_default_rules (InlineLexer_init base_rules base_default_rules))
                   (CHR ''$'' # rest)
                  = Some (''text'', (CHR ''$'' # g, []))
                \<and> prefix (CHR ''$'' # g) (CHR ''$'' # rest)
                \<and> text_rst (group (CHR ''$'' # g, []) 0) = CHR ''$'' # g))
   \<and> (\<not> sublist ''$$'' body \<and> ''block_math'' \<notin> set block_base_default_rules
     \<longrightarrow> block_math_rule (''$$'' @ body) = None
         \<and> manipulate (block_rules (BlockLexer_init block_base_rules block_base_default_rules))
              (block_default_rules (BlockLexer_init block_base_rules block_base_default_rules))
              (''$$'' @ body)
             = manipulate block_base_rules block_base_default_rules (''$$'' @ body))
   \<and> (CHR ''$'' \<notin> set (takeWhile (\<lambda>c. c \<noteq> CHR ''\<newline>'') tail)
     \<and> ''text'' \<in> set base_default_rules
     \<and> (\<forall>key \<in> set base_default_rules. key \<noteq> ''text'' \<and> key \<noteq> ''math''
            \<longrightarrow> base_rules key (''$$'' @ tail) = None)
     \<longrightarrow> math_rule (''$$'' @ tail) = None
         \<and> manipulate (inline_rules (InlineLexer_init base_rules base_default_rules))
              (inline_default_rules (InlineLexer_init base_rules base_default_rules))
              (''$$'' @ tail)
             = Some (''text'', (''$'', []))
         \<and> text_rst (group (''$'', []) 0) = ''$'')\<close>
proof (intro conjI impI)
  assume h: \<open>CHR ''$'' \<notin> set (tl (takeWhile (\<lambda>c. c \<noteq> CHR ''\<newline>'') rest))
     \<and> ''text'' \<in> set base_default_rules
     \<and> (\<forall>key \<in> set base_default_rules. key \<noteq> ''text'' \<and> key \<noteq> ''math''
            \<longrightarrow> base_rules key (CHR ''$'' # rest) = None)\<close>
  then have mi: "math_interior rest = None"
    by (simp add: math_interior_None_iff)
  then show mr: "math_rule (CHR ''$'' # rest) = None"
    by (simp add: math_rule_def)
  from text_span_total [of "CHR ''$'' # rest"]
  obtain g where g: "text_span (CHR ''$'' # rest) = Some (CHR ''$'' # g)"
    and p: "prefix (CHR ''$'' # g) (CHR ''$'' # rest)"
    by auto
  let ?rules = "base_rules(''text'' := text_rule, ''math'' := math_rule)"
  have tr: "?rules ''text'' (CHR ''$'' # rest) = Some (CHR ''$'' # g, [])"
    using g by (simp add: text_rule_def)
  have others: "\<forall>k \<in> set (''math'' # base_default_rules). k \<noteq> ''text''
      \<longrightarrow> ?rules k (CHR ''$'' # rest) = None"
    using h mr by auto
  have mem: "''text'' \<in> set (''math'' # base_default_rules)"
    using h by simp
  have "manipulate ?rules (''math'' # base_default_rules) (CHR ''$'' # rest)
      = Some (''text'', (CHR ''$'' # g, []))"
    using mem tr others
    by (rule manipulate_only [where rules = "?rules" and key = "''text''"])
  with p show \<open>\<exists>g. manipulate (inline_rules (InlineLexer_init base_rules base_default_rules))
                   (inline_default_rules (InlineLexer_init base_rules base_default_rules))
                   (CHR ''$'' # rest)
                  = Some (''text'', (CHR ''$'' # g, []))
                \<and> prefix (CHR ''$'' # g) (CHR ''$'' # rest)
                \<and> text_rst (group (CHR ''$'' # g, []) 0) = CHR ''$'' # g\<close>
    by (auto simp: inline_lexer_rules text_rst_def)
next
  assume nb: "\<not> sublist ''$$'' body \<and> ''block_math'' \<notin> set block_base_default_rules"
  have "lazy_until ''$$'' body = None"
  proof (cases "lazy_until ''$$'' body")
    case None
    then show ?thesis .
  next
    case (Some g)
    from lazy_until_prefix [OF Some] obtain b where "body = g @ ''$$'' @ b"
      by (auto simp: prefix_def)
    with nb show ?thesis by (auto simp: sublist_def)
  qed
  then show none: "block_math_rule (''$$'' @ body) = None"
    by (simp add: block_math_rule_def)
  have tbl: "\<forall>k \<in> set block_base_default_rules.
      block_rules (BlockLexer_init block_base_rules block_base_default_rules) k (''$$'' @ body)
        = block_base_rules k (''$$'' @ body)"
    using nb by (auto simp: BlockLexer_init_def BlockLexer_enable_math_def)
  have "manipulate (block_rules (BlockLexer_init block_base_rules block_base_default_rules))
              (block_default_rules (BlockLexer_init block_base_rules block_base_default_rules))
              (''$$'' @ body)
      = manipulate (block_rules (BlockLexer_init block_base_rules block_base_default_rules))
          block_base_default_rules (''$$'' @ body)"
    using none block_lexer_rules [of block_base_rules block_base_default_rules]
    by (simp del: append.simps)
  also have "\<dots> = manipulate block_base_rules block_base_default_rules (''$$'' @ body)"
    using tbl by (rule manipulate_table_cong)
  finally show "manipulate (block_rules (BlockLexer_init block_base_rules block_base_default_rules))
              (block_default_rules (BlockLexer_init block_base_rules block_base_default_rules))
              (''$$'' @ body)
             = manipulate block_base_rules block_base_default_rules (''$$'' @ body)" .
next
  assume h: \<open>CHR ''$'' \<notin> set (takeWhile (\<lambda>c. c \<noteq> CHR ''\<newline>'') tail)
     \<and> ''text'' \<in> set base_default_rules
     \<and> (\<forall>key \<in> set base_default_rules. key \<noteq> ''text'' \<and> key \<noteq> ''math''
            \<longrightarrow> base_rules key (''$$'' @ tail) = None)\<close>
  then have mi: \<open>math_interior (CHR ''$'' # tail) = None\<close>
    by (subst math_interior_None_iff) simp
  then show mr: "math_rule (''$$'' @ tail) = None"
    by (simp add: math_rule_def)
  have la: "text_lookahead (CHR ''$'' # tail)"
    by (simp add: text_lookahead_def text_stop_chars_def)
  let ?rules = "base_rules(''text'' := text_rule, ''math'' := math_rule)"
  have tr: "?rules ''text'' (''$$'' @ tail) = Some (''$'', [])"
    using la by (simp add: text_rule_def)
  have others: "\<forall>k \<in> set (''math'' # base_default_rules). k \<noteq> ''text''
      \<longrightarrow> ?rules k (''$$'' @ tail) = None"
    using h mr by auto
  have mem: "''text'' \<in> set (''math'' # base_default_rules)"
    using h by simp
  have "manipulate ?rules (''math'' # base_default_rules) (''$$'' @ tail)
      = Some (''text'', (''$'', []))"
    using mem tr others
    by (rule manipulate_only [where rules = "?rules" and key = "''text''"])
  then show \<open>manipulate (inline_rules (InlineLexer_init base_rules base_default_rules))
              (inline_default_rules (InlineLexer_init base_rules base_default_rules))
              (''$$'' @ tail)
             = Some (''text'', (''$'', []))\<close>
    by (simp add: inline_lexer_rules)
  show \<open>text_rst (group (''$'', []) 0) = ''$''\<close>
    by (simp add: text_rst_def)
qed

text \<open>
  The unterminated block \<open>$$x$y\<close>: the block math rule does not match, but the inline
  math rule does, with the interior \<open>$x\<close>; these dollar signs are not carried
  through as literal text.
\<close>

theorem unterminated_block_inline_math:
  \<open>block_math_rule ''$$x$y'' = None
   \<and> math_rule ''$$x$y'' = Some (''$$x$'', [''$x''])
   \<and> manipulate (inline_rules (InlineLexer_init (\<lambda>k t. None) [''escape'', ''text'']))
        (inline_default_rules (InlineLexer_init (\<lambda>k t. None) [''escape'', ''text'']))
        ''$$x$y''
       = Some (''math'', (''$$x$'', [''$x'']))
   \<and> output_math (''$$x$'', [''$x'']) = '':math:`$x`''\<close>
  by (simp add: block_math_rule_def math_rule_def startswith_def InlineLexer_init_def
      InlineLexer_enable_math_def output_math_def math_def)

theorem unclosed_dollar_is_text_witness:
  \<open>CHR ''$'' \<notin> set (tl (takeWhile (\<lambda>c. c \<noteq> CHR ''\<newline>'') ''5\<newline>x$''))
   \<and> ''text'' \<in> set [''escape'', ''text'']
   \<and> \<not> sublist ''$$'' ''x$y''
   \<and> ''block_math'' \<notin> set [''newline'', ''paragraph'']
   \<and> CHR ''$'' \<notin> set (takeWhile (\<lambda>c. c \<noteq> CHR ''\<newline>'') ''abc\<newline>d$'')
   \<and> math_rule ''$5\<newline>x$'' = None
   \<and> manipulate (inline_rules (InlineLexer_init (\<lambda>k t. None) [''escape'', ''text'']))
        (inline_default_rules (InlineLexer_init (\<lambda>k t. None) [''escape'', ''text'']))
        ''$5\<newline>x$''
       = Some (''text'', (''$5\<newline>x'', []))
   \<and> block_math_rule ''$$x$y'' = None
   \<and> manipulate
        (block_rules (BlockLexer_init
           (\<lambda>k t. if k = ''paragraph'' then Some (t, []) else None) [''newline'', ''paragraph'']))
        (block_default_rules (BlockLexer_init
           (\<lambda>k t. if k = ''paragraph'' then Some (t, []) else None) [''newline'', ''paragraph'']))
        ''$$x$y''
       = Some (''paragraph'', (''$$x$y'', []))
   \<and> math_rule ''$$abc\<newline>d$'' = None
   \<and> manipulate (inline_rules (InlineLexer_init (\<lambda>k t. None) [''escape'', ''text'']))
        (inline_default_rules (InlineLexer_init (\<lambda>k t. None) [''escape'', ''text'']))
        ''$$abc\<newline>d$''
       = Some (''text'', (''$'', []))\<close>
proof -
  have h1: \<open>CHR ''$'' \<notin> set (tl (takeWhile (\<lambda>c. c \<noteq> CHR ''\<newline>'') ''5\<newline>x$''))\<close>
    by simp
  have h2: \<open>\<forall>key \<in> set [''escape'', ''text'']. key \<noteq> ''text'' \<and> key \<noteq> ''math''
          \<longrightarrow> (\<lambda>k t. None :: rmatch option) key ''$5\<newline>x$'' = None\<close>
    by simp
  have h3: \<open>\<not> sublist ''$$'' ''x$y''\<close>
    by (simp add: sublist_Cons_right)
  have h4: \<open>CHR ''$'' \<notin> set (takeWhile (\<lambda>c. c \<noteq> CHR ''\<newline>'') ''abc\<newline>d$'')\<close>
    by simp
  have h5: \<open>\<forall>key \<in> set [''escape'', ''text'']. key \<noteq> ''text'' \<and> key \<noteq> ''math''
          \<longrightarrow> (\<lambda>k t. None :: rmatch option) key (''$$'' @ ''abc\<newline>d$'') = None\<close>
    by simp
  have h6: \<open>''block_math'' \<notin> set [''newline'', ''paragraph'']\<close>
    by simp
  have v: \<open>manipulate (inline_rules (InlineLexer_init (\<lambda>k t. None) [''escape'', ''text'']))
        (inline_default_rules (InlineLexer_init (\<lambda>k t. None) [''escape'', ''text'']))
        ''$5\<newline>x$''
       = Some (''text'', (''$5\<newline>x'', []))\<close>
    by (simp add: InlineLexer_init_def InlineLexer_enable_math_def math_rule_def startswith_def
        text_rule_def text_lookahead_def text_stop_chars_def)
  have b: \<open>manipulate (\<lambda>k t. if k = ''paragraph'' then Some (t, []) else None)
        [''newline'', ''paragraph''] ''$$x$y'' = Some (''paragraph'', (''$$x$y'', []))\<close>
    by simp
  from unclosed_dollar_is_text [where rest = \<open>''5\<newline>x$''\<close>
      and base_default_rules = \<open>[''escape'', ''text'']\<close> and base_rules = \<open>\<lambda>k t. None\<close>
      and body = \<open>''x$y''\<close> and block_base_default_rules = \<open>[''newline'', ''paragraph'']\<close>
      and block_base_rules = \<open>\<lambda>k t. if k = ''paragraph'' then Some (t, []) else None\<close>
      and tail = \<open>''abc\<newline>d$''\<close>]
    h1 h2 h3 h4 h5 h6 v b
  show ?thesis by simp
qed

end
